theory Spec2Isabelle
  imports Complex_Main
begin

section \<open>County mask generator: data model\<close>

text \<open>
  A shallow embedding of \<^verbatim>\<open>county_mask_generator/mask_generator.py\<close> and
  \<^verbatim>\<open>county_mask_generator/utils.py\<close>.

  Modelling conventions.
  \<^item> Coordinates and weights are exact rationals (\<^typ>\<open>rat\<close>): the source computes them in
    IEEE double precision, whose rounding is not modelled. \<open>1.0 / n\<close> is \<open>1 / of_nat n\<close>.
  \<^item> A pandas cell that is NaN is \<open>None\<close>; a row stores its non-NaN attribute values as an
    association list from column name to value.
  \<^item> Region identifier values have an arbitrary type \<open>'v\<close> (values that the float array
    \<open>fips_array\<close> can store); polygon geometries have an arbitrary type \<open>'g\<close>. The two
    geopandas operations on geometries that the source calls (\<open>to_crs\<close> and the \<open>within\<close>
    predicate of \<open>sjoin\<close>) are parameters of the model.
  \<^item> Every exception of the source is a value of \<open>error\<close>, returned as \<open>Inl\<close>.
\<close>

datatype error =
    ValueError string
  | KeyError string
  | AttributeError string
  | IndexError
  | ZeroDivisionError

text \<open>A row of the \<open>grid_points\<close> DataFrame: the columns \<open>lon\<close> and \<open>lat\<close>.\<close>

record point =
  lon :: rat
  lat :: rat

text \<open>A row of the joined frame \<open>grid_with_counties\<close>: the point and the attribute values
  of the county it was joined with (none when the point is in no county).\<close>

record 'v row = point +
  vals :: "(string \<times> 'v) list"

record 'v frame =
  columns :: "string list"
  rows :: "'v row list"

text \<open>The county GeoDataFrame read from the shapefile: its column names, its features (the
  attribute values and the geometry of each) and the bounding box \<open>total_bounds\<close>
  \<open>(min_lon, min_lat, max_lon, max_lat)\<close>.\<close>

record ('v, 'g) county =
  attrs :: "(string \<times> 'v) list"
  geometry :: 'g

record ('v, 'g) gdf =
  gcolumns :: "string list"
  features :: "('v, 'g) county list"
  total_bounds :: "rat \<times> rat \<times> rat \<times> rat"

text \<open>The instance: \<open>grid_points\<close> and \<open>grid_with_counties\<close> are attributes that
  \<open>__init__\<close> does not create, so they are optional.\<close>

record ('v, 'g) generator =
  county_identifier :: string
  counties :: "('v, 'g) gdf"
  grid_points :: "point list option"
  grid_with_counties :: "'v frame option"

text \<open>The xarray Dataset returned by \<open>create_weight_mask\<close>: two 2-D layers (lists of rows)
  and the two coordinate axes.\<close>

record 'v dataset =
  ds_FIPS :: "'v option list list"
  ds_weights :: "rat list list"
  ds_lat :: "rat list"
  ds_lon :: "rat list"

section \<open>Construction (\<open>utils.validate_shapefile\<close>, \<open>__init__\<close>)\<close>

text \<open>The file system: \<open>gpd.read_file\<close> either raises (\<open>None\<close>) or yields a frame.\<close>

type_synonym ('v, 'g) files = "string \<Rightarrow> ('v, 'g) gdf option"

fun has_columns :: "string list \<Rightarrow> string list \<Rightarrow> bool" where
  "has_columns cols [] = True"
| "has_columns cols (column # required) =
     (if column \<notin> set cols then False else has_columns cols required)"

definition validate_shapefile :: "('v, 'g) files \<Rightarrow> string \<Rightarrow> string list \<Rightarrow> bool" where
  "validate_shapefile fs shapefile_path required_columns =
     (case fs shapefile_path of
        None \<Rightarrow> False
      | Some cs \<Rightarrow> has_columns (gcolumns cs) required_columns)"

definition load_county_shapefile :: "('v, 'g) files \<Rightarrow> string \<Rightarrow> error + ('v, 'g) gdf" where
  "load_county_shapefile fs shapefile_path =
     (case fs shapefile_path of
        None \<Rightarrow> Inl (ValueError ''read_file'')
      | Some cs \<Rightarrow> Inr cs)"

definition init :: "('v, 'g) files \<Rightarrow> string \<Rightarrow> string \<Rightarrow> error + ('v, 'g) generator" where
  "init fs shapefile_path ident =
     (let required_columns = [ident] in
      if \<not> validate_shapefile fs shapefile_path required_columns
      then Inl (ValueError ''Shapefile validation failed.'')
      else (case load_county_shapefile fs shapefile_path of
              Inl e \<Rightarrow> Inl e
            | Inr cs \<Rightarrow> Inr \<lparr>county_identifier = ident, counties = cs,
                             grid_points = None, grid_with_counties = None\<rparr>))"

section \<open>Grid generation (\<open>generate_grid_points\<close>)\<close>

text \<open>\<open>np.linspace(start, stop, num)\<close> with the default \<open>endpoint=True\<close>: a negative \<open>num\<close>
  raises ValueError, \<open>num = 1\<close> gives \<open>[start]\<close>, otherwise \<open>num\<close> values with the step
  \<open>(stop - start) / (num - 1)\<close>.\<close>

definition linspace :: "rat \<Rightarrow> rat \<Rightarrow> int \<Rightarrow> error + rat list" where
  "linspace start stop num =
     (if num < 0 then Inl (ValueError ''Number of samples must be non-negative.'')
      else if num = 1 then Inr [start]
      else Inr (map (\<lambda>i. start + of_nat i * ((stop - start) / of_int (num - 1)))
                  [0 ..< nat num]))"

text \<open>\<open>np.meshgrid(lon, lat)\<close>: two arrays of shape \<open>(len(lat), len(lon))\<close>.\<close>

definition meshgrid :: "rat list \<Rightarrow> rat list \<Rightarrow> rat list list \<times> rat list list" where
  "meshgrid xs ys = (replicate (length ys) xs, map (\<lambda>y. replicate (length xs) y) ys)"

definition ravel :: "'a list list \<Rightarrow> 'a list" where
  "ravel a = concat a"

definition DataFrame :: "rat list \<Rightarrow> rat list \<Rightarrow> point list" where
  "DataFrame lons lats = map2 (\<lambda>x y. \<lparr>lon = x, lat = y\<rparr>) lons lats"

definition generate_grid_points ::
  "('v, 'g) generator \<Rightarrow> (rat \<times> rat) option \<Rightarrow> (rat \<times> rat) option \<Rightarrow> int option \<Rightarrow> int option
     \<Rightarrow> error + (('v, 'g) generator \<times> point list)" where
  "generate_grid_points self lat_range0 lon_range0 lat_steps0 lon_steps0 =
     (let bounds = total_bounds (counties self);
          lat_range = (case lat_range0 of
                         None \<Rightarrow> (case bounds of (min_lon, min_lat, max_lon, max_lat) \<Rightarrow> (min_lat, max_lat))
                       | Some r \<Rightarrow> r);
          lon_range = (case lon_range0 of
                         None \<Rightarrow> (case bounds of (min_lon, min_lat, max_lon, max_lat) \<Rightarrow> (min_lon, max_lon))
                       | Some r \<Rightarrow> r);
          lat_steps = (case lat_steps0 of None \<Rightarrow> 100 | Some n \<Rightarrow> n);
          lon_steps = (case lon_steps0 of None \<Rightarrow> 100 | Some n \<Rightarrow> n)
      in case linspace (fst lat_range) (snd lat_range) lat_steps of
           Inl e \<Rightarrow> Inl e
         | Inr lats \<Rightarrow>
             (case linspace (fst lon_range) (snd lon_range) lon_steps of
                Inl e \<Rightarrow> Inl e
              | Inr lons \<Rightarrow>
                  (case meshgrid lons lats of
                     (lon_grid, lat_grid) \<Rightarrow>
                       (let pts = DataFrame (ravel lon_grid) (ravel lat_grid)
                        in Inr (self\<lparr>grid_points := Some pts\<rparr>, pts)))))"

section \<open>Spatial assignment (\<open>assign_grid_to_county\<close>)\<close>

text \<open>\<open>gpd.sjoin(points, counties, how="left", predicate="within")\<close>: every point, in order,
  yields one row per county containing it (in the order of the counties), or a single row
  without attribute values when no county contains it. The joined frame carries the
  counties' attribute columns.\<close>

definition sjoin :: "(point \<Rightarrow> 'g \<Rightarrow> bool) \<Rightarrow> point list \<Rightarrow> ('v, 'g) gdf \<Rightarrow> 'v frame" where
  "sjoin is_within pts cs =
     \<lparr>columns = gcolumns cs,
      rows = concat (map (\<lambda>p.
               (case filter (\<lambda>c. is_within p (geometry c)) (features cs) of
                  [] \<Rightarrow> [\<lparr>lon = lon p, lat = lat p, vals = []\<rparr>]
                | ms \<Rightarrow> map (\<lambda>c. \<lparr>lon = lon p, lat = lat p, vals = attrs c\<rparr>) ms)) pts)\<rparr>"

definition assign_grid_to_county ::
  "(('v, 'g) gdf \<Rightarrow> error + ('v, 'g) gdf) \<Rightarrow> (point \<Rightarrow> 'g \<Rightarrow> bool) \<Rightarrow> ('v, 'g) generator
     \<Rightarrow> error + (('v, 'g) generator \<times> 'v frame)" where
  "assign_grid_to_county to_crs is_within self =
     (case to_crs (counties self) of
        Inl e \<Rightarrow> Inl e
      | Inr counties_projected \<Rightarrow>
          (case grid_points self of
             None \<Rightarrow> Inl (AttributeError ''grid_points'')
           | Some pts \<Rightarrow>
               (let joined = sjoin is_within pts counties_projected
                in Inr (self\<lparr>grid_with_counties := Some joined\<rparr>, joined))))"

section \<open>Weight mask (\<open>create_weight_mask\<close>)\<close>

text \<open>\<open>Series.unique()\<close>: the distinct values in order of first appearance.\<close>

definition unique :: "'a list \<Rightarrow> 'a list" where
  "unique xs = rev (remdups (rev xs))"

text \<open>\<open>np.where(u == x)[0][0]\<close>: the first index holding \<open>x\<close>; IndexError when there is
  none.\<close>

fun index_of :: "'a list \<Rightarrow> 'a \<Rightarrow> nat option" where
  "index_of [] x = None"
| "index_of (y # ys) x = (if y = x then Some 0 else map_option Suc (index_of ys x))"

text \<open>\<open>Series.value_counts().to_dict()\<close>: NaN is not counted.\<close>

definition value_counts :: "'v option list \<Rightarrow> ('v \<rightharpoonup> nat)" where
  "value_counts xs = (\<lambda>v. if Some v \<in> set xs then Some (count_list xs (Some v)) else None)"

text \<open>\<open>row['FIPS']\<close> and the column \<open>grid_with_counties['FIPS']\<close>.\<close>

definition fips_of :: "'v row \<Rightarrow> 'v option" where
  "fips_of r = map_of (vals r) ''FIPS''"

definition fips_column :: "'v frame \<Rightarrow> 'v option list" where
  "fips_column g = map fips_of (rows g)"

definition lat_index :: "'v frame \<Rightarrow> rat \<Rightarrow> nat option" where
  "lat_index g y = index_of (unique (map lat (rows g))) y"

definition lon_index :: "'v frame \<Rightarrow> rat \<Rightarrow> nat option" where
  "lon_index g x = index_of (unique (map lon (rows g))) x"

text \<open>The assignment \<open>a[i, j] = v\<close>. numpy raises IndexError out of range; the loop below
  calls it with indices into the unique latitudes and longitudes, whose numbers are the
  shape of the arrays (lemmas \<open>lat_index_row\<close>, \<open>lon_index_row\<close>, \<open>fill_rows_shape\<close>).\<close>

definition set2d :: "'a list list \<Rightarrow> nat \<Rightarrow> nat \<Rightarrow> 'a \<Rightarrow> 'a list list" where
  "set2d a i j v = a[i := (a ! i)[j := v]]"

text \<open>The weight of a region: \<open>1.0 / fips_counts[fips]\<close> when the key is present (a zero
  count would raise ZeroDivisionError), \<open>0.0\<close> otherwise.\<close>

definition weight_of :: "('v \<rightharpoonup> nat) \<Rightarrow> 'v \<Rightarrow> error + rat" where
  "weight_of fips_counts fips =
     (case fips_counts fips of
        Some c \<Rightarrow> if c = 0 then Inl ZeroDivisionError else Inr (1 / of_nat c)
      | None \<Rightarrow> Inr 0)"

text \<open>One iteration of the loop over \<open>grid_with_counties.iterrows()\<close>.\<close>

definition mask_row ::
  "'v frame \<Rightarrow> ('v \<rightharpoonup> nat) \<Rightarrow> 'v row \<Rightarrow> rat list list \<times> 'v option list list
     \<Rightarrow> error + (rat list list \<times> 'v option list list)" where
  "mask_row g fips_counts r arrays =
     (case arrays of (weight_mask, fips_array) \<Rightarrow>
        (case fips_of r of
           None \<Rightarrow> Inr (weight_mask, fips_array)
         | Some fips \<Rightarrow>
             (case lat_index g (lat r) of
                None \<Rightarrow> Inl IndexError
              | Some lat_idx \<Rightarrow>
                  (case lon_index g (lon r) of
                     None \<Rightarrow> Inl IndexError
                   | Some lon_idx \<Rightarrow>
                       (case weight_of fips_counts fips of
                          Inl e \<Rightarrow> Inl e
                        | Inr weight \<Rightarrow>
                            Inr (set2d weight_mask lat_idx lon_idx weight,
                                 set2d fips_array lat_idx lon_idx (Some fips)))))))"

fun fill_rows ::
  "'v frame \<Rightarrow> ('v \<rightharpoonup> nat) \<Rightarrow> 'v row list \<Rightarrow> rat list list \<times> 'v option list list
     \<Rightarrow> error + (rat list list \<times> 'v option list list)" where
  "fill_rows g fips_counts [] arrays = Inr arrays"
| "fill_rows g fips_counts (r # rs) arrays =
     (case mask_row g fips_counts r arrays of
        Inl e \<Rightarrow> Inl e
      | Inr arrays' \<Rightarrow> fill_rows g fips_counts rs arrays')"

text \<open>Lines 102 to 149 of the source, with the dictionary \<open>fips_counts\<close> as an argument.\<close>

definition build_mask :: "'v frame \<Rightarrow> ('v \<rightharpoonup> nat) \<Rightarrow> error + 'v dataset" where
  "build_mask g fips_counts =
     (let lat_len = length (unique (map lat (rows g)));
          lon_len = length (unique (map lon (rows g)));
          weight_mask = replicate lat_len (replicate lon_len (0 :: rat));
          fips_array = replicate lat_len (replicate lon_len None)
      in case fill_rows g fips_counts (rows g) (weight_mask, fips_array) of
           Inl e \<Rightarrow> Inl e
         | Inr (weight_mask', fips_array') \<Rightarrow>
             Inr \<lparr>ds_FIPS = fips_array', ds_weights = weight_mask',
                  ds_lat = sort (unique (map lat (rows g))),
                  ds_lon = sort (unique (map lon (rows g)))\<rparr>)"

definition create_weight_mask :: "('v, 'g) generator \<Rightarrow> error + 'v dataset" where
  "create_weight_mask self =
     (case grid_with_counties self of
        None \<Rightarrow> Inl (AttributeError ''grid_with_counties'')
      | Some g \<Rightarrow>
          if ''FIPS'' \<notin> set (columns g) then Inl (KeyError ''FIPS'')
          else build_mask g (value_counts (fips_column g)))"

section \<open>The pipeline as a sequence of method calls\<close>

text \<open>A caller drives one instance through a sequence of method calls. A call that raises
  leaves the instance as it was (each method assigns its attribute in its last statement
  before returning); a call that returns leaves the instance it has updated.\<close>

datatype call =
    GenerateGridPoints "(rat \<times> rat) option" "(rat \<times> rat) option" "int option" "int option"
  | AssignGridToCounty
  | CreateWeightMask

fun exec ::
  "(('v, 'g) gdf \<Rightarrow> error + ('v, 'g) gdf) \<Rightarrow> (point \<Rightarrow> 'g \<Rightarrow> bool) \<Rightarrow> ('v, 'g) generator
     \<Rightarrow> call \<Rightarrow> ('v, 'g) generator" where
  "exec to_crs is_within self (GenerateGridPoints lat_range lon_range lat_steps lon_steps) =
     (case generate_grid_points self lat_range lon_range lat_steps lon_steps of
        Inl e \<Rightarrow> self
      | Inr (self', pts) \<Rightarrow> self')"
| "exec to_crs is_within self AssignGridToCounty =
     (case assign_grid_to_county to_crs is_within self of
        Inl e \<Rightarrow> self
      | Inr (self', joined) \<Rightarrow> self')"
| "exec to_crs is_within self CreateWeightMask = self"

fun run ::
  "(('v, 'g) gdf \<Rightarrow> error + ('v, 'g) gdf) \<Rightarrow> (point \<Rightarrow> 'g \<Rightarrow> bool) \<Rightarrow> ('v, 'g) generator
     \<Rightarrow> call list \<Rightarrow> ('v, 'g) generator" where
  "run to_crs is_within self [] = self"
| "run to_crs is_within self (c # cs) = run to_crs is_within (exec to_crs is_within self c) cs"

section \<open>Reading a mask\<close>






section \<open>Concrete inputs\<close>

text \<open>Geometries of the examples are open axis-parallel boxes
  \<open>(min_lon, min_lat, max_lon, max_lat)\<close>, already in EPSG:4326.\<close>

type_synonym box = "rat \<times> rat \<times> rat \<times> rat"

definition box_within :: "point \<Rightarrow> box \<Rightarrow> bool" where
  "box_within p b =
     (case b of (x0, y0, x1, y1) \<Rightarrow> x0 < lon p \<and> lon p < x1 \<and> y0 < lat p \<and> lat p < y1)"

definition keep_crs :: "(int, box) gdf \<Rightarrow> error + (int, box) gdf" where
  "keep_crs cs = Inr cs"

text \<open>Two counties, one north and one south of latitude \<open>1/2\<close>, with both a \<open>FIPS\<close> and a
  \<open>GEOID\<close> column.\<close>

definition north_south :: "(int, box) gdf" where
  "north_south =
     \<lparr>gcolumns = [''FIPS'', ''GEOID''],
      features =
        [\<lparr>attrs = [(''FIPS'', 1), (''GEOID'', 101)], geometry = (-1, 1/2, 3, 2)\<rparr>,
         \<lparr>attrs = [(''FIPS'', 2), (''GEOID'', 102)], geometry = (-1, -1, 3, 1/2)\<rparr>],
      total_bounds = (-1, -1, 3, 2)\<rparr>"

text \<open>The same two counties in a shapefile that has only the \<open>GEOID\<close> column.\<close>

definition geoid_only :: "(int, box) gdf" where
  "geoid_only =
     \<lparr>gcolumns = [''GEOID''],
      features =
        [\<lparr>attrs = [(''GEOID'', 101)], geometry = (-1, 1/2, 3, 2)\<rparr>,
         \<lparr>attrs = [(''GEOID'', 102)], geometry = (-1, -1, 3, 1/2)\<rparr>],
      total_bounds = (-1, -1, 3, 2)\<rparr>"

text \<open>Two counties that overlap for longitudes between \<open>1/2\<close> and \<open>3/2\<close>, and two
  features that carry the same identifier.\<close>

definition overlapping :: "(int, box) gdf" where
  "overlapping =
     \<lparr>gcolumns = [''FIPS''],
      features =
        [\<lparr>attrs = [(''FIPS'', 1)], geometry = (-1, -1, 3/2, 1)\<rparr>,
         \<lparr>attrs = [(''FIPS'', 2)], geometry = (1/2, -1, 3, 1)\<rparr>],
      total_bounds = (-1, -1, 3, 1)\<rparr>"

definition duplicated_ids :: "(int, box) gdf" where
  "duplicated_ids =
     \<lparr>gcolumns = [''FIPS''],
      features =
        [\<lparr>attrs = [(''FIPS'', 1)], geometry = (-1, -1, 1, 1)\<rparr>,
         \<lparr>attrs = [(''FIPS'', 1)], geometry = (1, -1, 3, 1)\<rparr>],
      total_bounds = (-1, -1, 3, 1)\<rparr>"

definition disk :: "(int, box) files" where
  "disk path =
     (if path = ''north_south.shp'' then Some north_south
      else if path = ''geoid_only.shp'' then Some geoid_only
      else if path = ''overlapping.shp'' then Some overlapping
      else if path = ''duplicated_ids.shp'' then Some duplicated_ids
      else None)"

text \<open>A freshly constructed instance over a frame of counties.\<close>

definition fresh :: "string \<Rightarrow> (int, box) gdf \<Rightarrow> (int, box) generator" where
  "fresh ident cs =
     \<lparr>county_identifier = ident, counties = cs, grid_points = None, grid_with_counties = None\<rparr>"

text \<open>A two by two grid over the two counties \<open>north_south\<close>, its assignment table and
  its mask.\<close>

definition ns_instance :: "(int, box) generator" where
  "ns_instance =
     run keep_crs box_within (fresh ''FIPS'' north_south)
       [GenerateGridPoints (Some (0, 1)) (Some (0, 1)) (Some 2) (Some 2), AssignGridToCounty]"

definition ns_table :: "int frame" where
  "ns_table =
     \<lparr>columns = [''FIPS'', ''GEOID''],
      rows = [\<lparr>lon = 0, lat = 0, vals = [(''FIPS'', 2), (''GEOID'', 102)]\<rparr>,
              \<lparr>lon = 1, lat = 0, vals = [(''FIPS'', 2), (''GEOID'', 102)]\<rparr>,
              \<lparr>lon = 0, lat = 1, vals = [(''FIPS'', 1), (''GEOID'', 101)]\<rparr>,
              \<lparr>lon = 1, lat = 1, vals = [(''FIPS'', 1), (''GEOID'', 101)]\<rparr>]\<rparr>"

definition ns_mask :: "int dataset" where
  "ns_mask =
     \<lparr>ds_FIPS = [[Some 2, Some 2], [Some 1, Some 1]],
      ds_weights = [[1 / 2, 1 / 2], [1 / 2, 1 / 2]],
      ds_lat = [0, 1], ds_lon = [0, 1]\<rparr>"












section \<open>Lemmas on the weight-mask loop\<close>

subsection \<open>unique and index_of\<close>


lemma distinct_unique: "distinct (unique xs)"
  by (simp add: unique_def)







subsection \<open>Two-dimensional arrays\<close>






subsection \<open>Sums\<close>







subsection \<open>One row\<close>




subsection \<open>The loop\<close>





subsection \<open>Counts and the whole construction\<close>






text \<open>When the values first appear in ascending order, the position among the unique values
  is the position in the sorted axis.\<close>

lemma lat_index_sorted_axis:
  "sorted (unique (map lat (rows g))) \<Longrightarrow>
   index_of (sort (unique (map lat (rows g)))) y = lat_index g y"
  by (simp add: lat_index_def sorted_sort_id)

lemma lon_index_sorted_axis:
  "sorted (unique (map lon (rows g))) \<Longrightarrow>
   index_of (sort (unique (map lon (rows g)))) x = lon_index g x"
  by (simp add: lon_index_def sorted_sort_id)

section \<open>Lemmas on grid generation\<close>

subsection \<open>linspace\<close>

lemma linspace_negative:
  "num < 0 \<Longrightarrow> linspace start stop num = Inl (ValueError ''Number of samples must be non-negative.'')"
  by (simp add: linspace_def)

lemma linspace_values:
  assumes "0 \<le> num"
  shows "\<exists>xs. linspace start stop num = Inr xs \<and> length xs = nat num
           \<and> (\<forall>i < nat num. xs ! i = start + of_nat i * ((stop - start) / of_int (num - 1)))"
proof (cases "num = 1")
  case True
  then show ?thesis by (simp add: linspace_def)
next
  case False
  with assms show ?thesis by (simp add: linspace_def)
qed

subsection \<open>meshgrid and ravel\<close>

lemma length_concat_replicate: "length (concat (replicate n xs)) = n * length xs"
  by (induction n) simp_all

lemma nth_concat_replicate:
  "i < n \<Longrightarrow> j < length xs \<Longrightarrow> concat (replicate n xs) ! (i * length xs + j) = xs ! j"
proof (induction n arbitrary: i)
  case 0
  then show ?case by simp
next
  case (Suc n)
  show ?case
  proof (cases i)
    case 0
    with Suc.prems show ?thesis by (simp add: nth_append)
  next
    case (Suc k)
    with Suc.prems Suc.IH[of k] show ?thesis by (simp add: nth_append)
  qed
qed

lemma length_concat_rows: "length (concat (map (replicate m) ys)) = length ys * m"
  by (induction ys) simp_all

lemma nth_concat_rows:
  "i < length ys \<Longrightarrow> j < m \<Longrightarrow> concat (map (replicate m) ys) ! (i * m + j) = ys ! i"
proof (induction ys arbitrary: i)
  case Nil
  then show ?case by simp
next
  case (Cons y ys)
  show ?case
  proof (cases i)
    case 0
    with Cons.prems show ?thesis by (simp add: nth_append)
  next
    case (Suc k)
    with Cons.prems Cons.IH[of k] show ?thesis by (simp add: nth_append)
  qed
qed

lemma cell_index_bound: "i < n \<Longrightarrow> j < m \<Longrightarrow> i * m + j < n * (m::nat)"
proof -
  assume a: "i < n" "j < m"
  then have "i * m + j < i * m + m" by simp
  also have "\<dots> = Suc i * m" by simp
  also have "\<dots> \<le> n * m" using a(1) by (intro mult_le_mono1) simp
  finally show ?thesis .
qed

lemma grid_points_of_axes:
  "DataFrame (ravel (fst (meshgrid lons lats))) (ravel (snd (meshgrid lons lats))) = pts \<Longrightarrow>
   length pts = length lats * length lons
   \<and> (\<forall>i j. i < length lats \<longrightarrow> j < length lons \<longrightarrow>
         pts ! (i * length lons + j) = \<lparr>lon = lons ! j, lat = lats ! i\<rparr>)"
proof -
  assume d: "DataFrame (ravel (fst (meshgrid lons lats))) (ravel (snd (meshgrid lons lats))) = pts"
  let ?xs = "concat (replicate (length lats) lons)"
  let ?ys = "concat (map (replicate (length lons)) lats)"
  have pts: "pts = map2 (\<lambda>x y. \<lparr>lon = x, lat = y\<rparr>) ?xs ?ys"
    using d by (simp add: DataFrame_def ravel_def meshgrid_def)
  have lx: "length ?xs = length lats * length lons" by (rule length_concat_replicate)
  have ly: "length ?ys = length lats * length lons" by (rule length_concat_rows)
  have len: "length pts = length lats * length lons" using pts lx ly by simp
  have "pts ! (i * length lons + j) = \<lparr>lon = lons ! j, lat = lats ! i\<rparr>"
    if "i < length lats" "j < length lons" for i j
  proof -
    have b: "i * length lons + j < length lats * length lons"
      using that by (rule cell_index_bound)
    then have "pts ! (i * length lons + j)
             = \<lparr>lon = ?xs ! (i * length lons + j), lat = ?ys ! (i * length lons + j)\<rparr>"
      using pts lx ly by simp
    then show ?thesis
      using that by (simp add: nth_concat_replicate nth_concat_rows)
  qed
  with len show ?thesis by blast
qed

lemma generate_grid_points_given:
  "generate_grid_points self (Some (a0, a1)) (Some (b0, b1)) (Some L) (Some W) =
     (case linspace a0 a1 L of
        Inl e \<Rightarrow> Inl e
      | Inr lats \<Rightarrow>
          (case linspace b0 b1 W of
             Inl e \<Rightarrow> Inl e
           | Inr lons \<Rightarrow>
               Inr (self\<lparr>grid_points :=
                      Some (DataFrame (ravel (fst (meshgrid lons lats))) (ravel (snd (meshgrid lons lats))))\<rparr>,
                    DataFrame (ravel (fst (meshgrid lons lats))) (ravel (snd (meshgrid lons lats))))))"
  by (simp add: generate_grid_points_def Let_def split: sum.splits prod.splits)

lemma generate_grid_points_formula:
  assumes "0 \<le> L" "0 \<le> W"
  shows "\<exists>pts. generate_grid_points self (Some (a0, a1)) (Some (b0, b1)) (Some L) (Some W)
                 = Inr (self\<lparr>grid_points := Some pts\<rparr>, pts)
           \<and> length pts = nat L * nat W
           \<and> (\<forall>i j. i < nat L \<longrightarrow> j < nat W \<longrightarrow>
                 pts ! (i * nat W + j)
                   = \<lparr>lon = b0 + of_nat j * ((b1 - b0) / of_int (W - 1)),
                      lat = a0 + of_nat i * ((a1 - a0) / of_int (L - 1))\<rparr>)"
proof -
  obtain lats where lats: "linspace a0 a1 L = Inr lats" "length lats = nat L"
    "\<forall>i < nat L. lats ! i = a0 + of_nat i * ((a1 - a0) / of_int (L - 1))"
    using linspace_values[OF assms(1)] by blast
  obtain lons where lons: "linspace b0 b1 W = Inr lons" "length lons = nat W"
    "\<forall>j < nat W. lons ! j = b0 + of_nat j * ((b1 - b0) / of_int (W - 1))"
    using linspace_values[OF assms(2)] by blast
  let ?pts = "DataFrame (ravel (fst (meshgrid lons lats))) (ravel (snd (meshgrid lons lats)))"
  have "generate_grid_points self (Some (a0, a1)) (Some (b0, b1)) (Some L) (Some W)
          = Inr (self\<lparr>grid_points := Some ?pts\<rparr>, ?pts)"
    using lats(1) lons(1) by (simp add: generate_grid_points_given)
  moreover have "length ?pts = length lats * length lons
       \<and> (\<forall>i j. i < length lats \<longrightarrow> j < length lons \<longrightarrow>
              ?pts ! (i * length lons + j) = \<lparr>lon = lons ! j, lat = lats ! i\<rparr>)"
    by (rule grid_points_of_axes) simp
  ultimately show ?thesis using lats(2,3) lons(2,3) by auto
qed

lemma rat_of_nat_pred: "1 \<le> L \<Longrightarrow> (of_nat (nat L - 1) :: rat) = of_int (L - 1)"
proof -
  assume "1 \<le> L"
  then have "int (nat L - 1) = L - 1" by simp
  then have "(of_int (int (nat L - 1)) :: rat) = of_int (L - 1)" by simp
  then show ?thesis by simp
qed

lemma last_cell_index: "0 < n \<Longrightarrow> 0 < m \<Longrightarrow> (n - 1) * m + (m - 1) = n * m - (1::nat)"
  by (cases n; cases m) simp_all

lemma linspace_last: "2 \<le> L \<Longrightarrow> a0 + of_nat (nat L - 1) * ((a1 - a0) / of_int (L - 1)) = (a1::rat)"
  by (simp add: rat_of_nat_pred)

lemma linspace_mono:
  assumes "1 \<le> L" "a0 \<le> a1" "i \<le> i'"
  shows "a0 + of_nat i * ((a1 - a0) / of_int (L - 1)) \<le> (a0::rat) + of_nat i' * ((a1 - a0) / of_int (L - 1))"
proof -
  have "0 \<le> (a1 - a0) / of_int (L - 1)" using assms(1,2) by simp
  moreover have "(of_nat i :: rat) \<le> of_nat i'" using assms(3) by simp
  ultimately have "of_nat i * ((a1 - a0) / of_int (L - 1)) \<le> of_nat i' * ((a1 - a0) / of_int (L - 1))"
    by (rule mult_right_mono[rotated])
  then show ?thesis by simp
qed

section \<open>Lemmas on the attributes set by earlier calls\<close>

lemma exec_grid_points:
  "grid_points (exec t w s c) \<noteq> None \<Longrightarrow>
   grid_points s \<noteq> None \<or> (\<exists>a b l k. c = GenerateGridPoints a b l k)"
  by (cases c) (auto simp: assign_grid_to_county_def Let_def split: sum.splits option.splits)

lemma exec_grid_with_counties:
  "grid_with_counties (exec t w s c) \<noteq> None \<Longrightarrow>
   grid_with_counties s \<noteq> None \<or> c = AssignGridToCounty"
  by (cases c) (auto simp: generate_grid_points_def Let_def split: sum.splits option.splits prod.splits)

lemma run_grid_points:
  "grid_points (run t w s cs) \<noteq> None \<Longrightarrow>
   grid_points s \<noteq> None \<or> (\<exists>a b l k. GenerateGridPoints a b l k \<in> set cs)"
proof (induction cs arbitrary: s)
  case Nil
  then show ?case by simp
next
  case (Cons c cs)
  from Cons.prems have "grid_points (run t w (exec t w s c) cs) \<noteq> None" by simp
  then have "grid_points (exec t w s c) \<noteq> None \<or> (\<exists>a b l k. GenerateGridPoints a b l k \<in> set cs)"
    by (rule Cons.IH)
  then show ?case using exec_grid_points[of t w s c] by auto
qed

lemma run_grid_with_counties:
  "grid_with_counties (run t w s cs) \<noteq> None \<Longrightarrow>
   grid_with_counties s \<noteq> None \<or> AssignGridToCounty \<in> set cs"
proof (induction cs arbitrary: s)
  case Nil
  then show ?case by simp
next
  case (Cons c cs)
  from Cons.prems have "grid_with_counties (run t w (exec t w s c) cs) \<noteq> None" by simp
  then have "grid_with_counties (exec t w s c) \<noteq> None \<or> AssignGridToCounty \<in> set cs"
    by (rule Cons.IH)
  then show ?case using exec_grid_with_counties[of t w s c] by auto
qed

lemma init_fresh:
  "init fs shapefile_path ident = Inr s0 \<Longrightarrow> grid_points s0 = None \<and> grid_with_counties s0 = None"
  by (auto simp: init_def Let_def split: if_splits sum.splits)

lemma assign_needs_grid_points:
  "assign_grid_to_county t w s = Inr r \<Longrightarrow> grid_points s \<noteq> None"
  by (auto simp: assign_grid_to_county_def split: sum.splits option.splits)

lemma create_needs_grid_with_counties:
  "create_weight_mask s = Inr ds \<Longrightarrow> grid_with_counties s \<noteq> None"
  by (auto simp: create_weight_mask_def split: option.splits)

section \<open>Weights of the mask\<close>







section \<open>No check of the grid shape\<close>




section \<open>An identifier missing from the counts\<close>



section \<open>The region column is fixed to FIPS\<close>

text \<open>
  Claim C4 says that the mask is counted and keyed by the column configured at construction.
  The source stores \<open>county_identifier\<close> and then reads the column \<open>'FIPS'\<close> by name in
  \<open>create_weight_mask\<close>. Constructed with \<open>'GEOID'\<close> over a shapefile that has no
  \<open>FIPS\<close> column, construction, grid generation and assignment succeed and the mask
  construction raises KeyError; over a shapefile that has both columns, the region layer
  holds the \<open>FIPS\<close> values (1 and 2), not the configured \<open>GEOID\<close> values (101 and 102).
\<close>

theorem configured_identifier_ignored:
  "init disk ''geoid_only.shp'' ''GEOID'' = Inr (fresh ''GEOID'' geoid_only) \<and>
   create_weight_mask
     (run keep_crs box_within (fresh ''GEOID'' geoid_only)
        [GenerateGridPoints (Some (0, 1)) (Some (0, 1)) (Some 2) (Some 2), AssignGridToCounty])
     = Inl (KeyError ''FIPS'') \<and>
   init disk ''north_south.shp'' ''GEOID'' = Inr (fresh ''GEOID'' north_south) \<and>
   create_weight_mask
     (run keep_crs box_within (fresh ''GEOID'' north_south)
        [GenerateGridPoints (Some (0, 1)) (Some (0, 1)) (Some 2) (Some 2), AssignGridToCounty])
     = Inr \<lparr>ds_FIPS = [[Some 2, Some 2], [Some 1, Some 1]],
            ds_weights = [[1 / 2, 1 / 2], [1 / 2, 1 / 2]],
            ds_lat = [0, 1], ds_lon = [0, 1]\<rparr>"
  by code_simp

section \<open>Layers against the sorted axes\<close>

text \<open>
  Claim C6 says that the value written for a grid point sits at the position of its latitude
  in the sorted latitude axis. The source finds the row index in
  \<open>grid_with_counties['lat'].unique()\<close> (order of first appearance) and labels the rows with
  \<open>np.sort\<close> of the same values. For a grid generated from north to south (latitude range
  \<open>(1, 0)\<close>) the point at latitude 1 lies in county 1 and the point at latitude 0 in
  county 2, and the mask returned holds county 1 in the row labelled 0 and county 2 in the
  row labelled 1.
\<close>

theorem layers_not_aligned_with_sorted_axes:
  "run keep_crs box_within (fresh ''FIPS'' north_south)
     [GenerateGridPoints (Some (1, 0)) (Some (0, 0)) (Some 2) (Some 1), AssignGridToCounty]
     = (fresh ''FIPS'' north_south)
         \<lparr>grid_points := Some [\<lparr>lon = 0, lat = 1\<rparr>, \<lparr>lon = 0, lat = 0\<rparr>],
          grid_with_counties := Some
            \<lparr>columns = [''FIPS'', ''GEOID''],
             rows = [\<lparr>lon = 0, lat = 1, vals = [(''FIPS'', 1), (''GEOID'', 101)]\<rparr>,
                     \<lparr>lon = 0, lat = 0, vals = [(''FIPS'', 2), (''GEOID'', 102)]\<rparr>]\<rparr>\<rparr> \<and>
   create_weight_mask
     (run keep_crs box_within (fresh ''FIPS'' north_south)
        [GenerateGridPoints (Some (1, 0)) (Some (0, 0)) (Some 2) (Some 1), AssignGridToCounty])
     = Inr \<lparr>ds_FIPS = [[Some 1], [Some 2]], ds_weights = [[1], [1]],
            ds_lat = [0, 1], ds_lon = [0]\<rparr>"
  by code_simp

section \<open>The grid\<close>

text \<open>
  Claim C3 (as amended). For step counts \<open>L, W \<ge> 1\<close> and given latitude and longitude
  ranges, \<open>generate_grid_points\<close> returns exactly \<open>L * W\<close> points in row-major order: the
  point at index \<open>i * W + j\<close> has the \<open>i\<close>-th of \<open>L\<close> evenly spaced latitudes and the
  \<open>j\<close>-th of \<open>W\<close> evenly spaced longitudes. The first latitude and longitude are the lower
  endpoints of the ranges; the last are the upper endpoints when the step count is at least
  2 (a step count of 1 gives the lower endpoint only); latitudes and longitudes ascend when
  the range is given with its smaller value first.
\<close>

theorem grid_row_major:
  assumes "1 \<le> L" and "1 \<le> W"
  shows "\<exists>pts. generate_grid_points self (Some (a0, a1)) (Some (b0, b1)) (Some L) (Some W)
                 = Inr (self\<lparr>grid_points := Some pts\<rparr>, pts)
           \<and> length pts = nat (L * W)
           \<and> (\<forall>i j. i < nat L \<longrightarrow> j < nat W \<longrightarrow>
                 pts ! (i * nat W + j)
                   = \<lparr>lon = b0 + of_nat j * ((b1 - b0) / of_int (W - 1)),
                      lat = a0 + of_nat i * ((a1 - a0) / of_int (L - 1))\<rparr>)
           \<and> lat (pts ! 0) = a0 \<and> lon (pts ! 0) = b0
           \<and> (2 \<le> L \<longrightarrow> lat (pts ! (nat L * nat W - 1)) = a1)
           \<and> (2 \<le> W \<longrightarrow> lon (pts ! (nat L * nat W - 1)) = b1)
           \<and> (a0 \<le> a1 \<longrightarrow> (\<forall>i i' j j'. i \<le> i' \<longrightarrow> i' < nat L \<longrightarrow> j < nat W \<longrightarrow> j' < nat W \<longrightarrow>
                 lat (pts ! (i * nat W + j)) \<le> lat (pts ! (i' * nat W + j'))))
           \<and> (b0 \<le> b1 \<longrightarrow> (\<forall>i j j'. i < nat L \<longrightarrow> j \<le> j' \<longrightarrow> j' < nat W \<longrightarrow>
                 lon (pts ! (i * nat W + j)) \<le> lon (pts ! (i * nat W + j'))))"
proof -
  have nn: "0 \<le> L" "0 \<le> W" using assms by simp_all
  obtain pts where gen: "generate_grid_points self (Some (a0, a1)) (Some (b0, b1)) (Some L) (Some W)
                 = Inr (self\<lparr>grid_points := Some pts\<rparr>, pts)"
    and len: "length pts = nat L * nat W"
    and cell: "\<And>i j. i < nat L \<Longrightarrow> j < nat W \<Longrightarrow>
                 pts ! (i * nat W + j)
                   = \<lparr>lon = b0 + of_nat j * ((b1 - b0) / of_int (W - 1)),
                      lat = a0 + of_nat i * ((a1 - a0) / of_int (L - 1))\<rparr>"
    using generate_grid_points_formula[OF nn, of self a0 a1 b0 b1] by blast
  have pos: "0 < nat L" "0 < nat W" using assms by simp_all
  have len': "length pts = nat (L * W)" using len nn by (simp add: nat_mult_distrib)
  have first: "lat (pts ! 0) = a0 \<and> lon (pts ! 0) = b0"
    using cell[of 0 0] pos by simp
  have lastc: "pts ! (nat L * nat W - 1)
                = \<lparr>lon = b0 + of_nat (nat W - 1) * ((b1 - b0) / of_int (W - 1)),
                   lat = a0 + of_nat (nat L - 1) * ((a1 - a0) / of_int (L - 1))\<rparr>"
    using cell[of "nat L - 1" "nat W - 1"] pos last_cell_index[OF pos] by simp
  have lastlat: "2 \<le> L \<longrightarrow> lat (pts ! (nat L * nat W - 1)) = a1"
    using lastc linspace_last[of L a0 a1] by simp
  have lastlon: "2 \<le> W \<longrightarrow> lon (pts ! (nat L * nat W - 1)) = b1"
    using lastc linspace_last[of W b0 b1] by simp
  have asc_lat: "a0 \<le> a1 \<longrightarrow> (\<forall>i i' j j'. i \<le> i' \<longrightarrow> i' < nat L \<longrightarrow> j < nat W \<longrightarrow> j' < nat W \<longrightarrow>
                 lat (pts ! (i * nat W + j)) \<le> lat (pts ! (i' * nat W + j')))"
  proof (intro impI allI)
    fix i i' j j'
    assume h: "a0 \<le> a1" "i \<le> i'" "i' < nat L" "j < nat W" "j' < nat W"
    then have "i < nat L" by simp
    then show "lat (pts ! (i * nat W + j)) \<le> lat (pts ! (i' * nat W + j'))"
      using cell[of i j] cell[of i' j'] h linspace_mono[OF assms(1) h(1) h(2)] by simp
  qed
  have asc_lon: "b0 \<le> b1 \<longrightarrow> (\<forall>i j j'. i < nat L \<longrightarrow> j \<le> j' \<longrightarrow> j' < nat W \<longrightarrow>
                 lon (pts ! (i * nat W + j)) \<le> lon (pts ! (i * nat W + j')))"
  proof (intro impI allI)
    fix i j j'
    assume h: "b0 \<le> b1" "i < nat L" "j \<le> j'" "j' < nat W"
    then have "j < nat W" by simp
    then show "lon (pts ! (i * nat W + j)) \<le> lon (pts ! (i * nat W + j'))"
      using cell[of i j] cell[of i j'] h linspace_mono[OF assms(2) h(1) h(3)] by simp
  qed
  from gen len' cell first lastlat lastlon asc_lat asc_lon show ?thesis by blast
qed

theorem grid_row_major_witness:
  "(1::int) \<le> 2 \<and> (1::int) \<le> 3
   \<and> generate_grid_points (fresh ''FIPS'' north_south) (Some (0, 1)) (Some (0, 2)) (Some 2) (Some 3)
       = Inr ((fresh ''FIPS'' north_south)\<lparr>grid_points := Some
                [\<lparr>lon = 0, lat = 0\<rparr>, \<lparr>lon = 1, lat = 0\<rparr>, \<lparr>lon = 2, lat = 0\<rparr>,
                 \<lparr>lon = 0, lat = 1\<rparr>, \<lparr>lon = 1, lat = 1\<rparr>, \<lparr>lon = 2, lat = 1\<rparr>]\<rparr>,
              [\<lparr>lon = 0, lat = 0\<rparr>, \<lparr>lon = 1, lat = 0\<rparr>, \<lparr>lon = 2, lat = 0\<rparr>,
               \<lparr>lon = 0, lat = 1\<rparr>, \<lparr>lon = 1, lat = 1\<rparr>, \<lparr>lon = 2, lat = 1\<rparr>])
   \<and> (\<exists>pts. generate_grid_points (fresh ''FIPS'' north_south) (Some (0, 1)) (Some (0, 2)) (Some 2) (Some 3)
                = Inr ((fresh ''FIPS'' north_south)\<lparr>grid_points := Some pts\<rparr>, pts)
            \<and> length pts = 6 \<and> lat (pts ! 0) = 0 \<and> lon (pts ! 0) = 0
            \<and> lat (pts ! 5) = 1 \<and> lon (pts ! 5) = 2)"
proof -
  have a: "(1::int) \<le> 2" and b: "(1::int) \<le> 3" by simp_all
  have c: "generate_grid_points (fresh ''FIPS'' north_south) (Some (0, 1)) (Some (0, 2)) (Some 2) (Some 3)
       = Inr ((fresh ''FIPS'' north_south)\<lparr>grid_points := Some
                [\<lparr>lon = 0, lat = 0\<rparr>, \<lparr>lon = 1, lat = 0\<rparr>, \<lparr>lon = 2, lat = 0\<rparr>,
                 \<lparr>lon = 0, lat = 1\<rparr>, \<lparr>lon = 1, lat = 1\<rparr>, \<lparr>lon = 2, lat = 1\<rparr>]\<rparr>,
              [\<lparr>lon = 0, lat = 0\<rparr>, \<lparr>lon = 1, lat = 0\<rparr>, \<lparr>lon = 2, lat = 0\<rparr>,
               \<lparr>lon = 0, lat = 1\<rparr>, \<lparr>lon = 1, lat = 1\<rparr>, \<lparr>lon = 2, lat = 1\<rparr>])"
    by code_simp
  obtain pts where p: "generate_grid_points (fresh ''FIPS'' north_south) (Some (0, 1)) (Some (0, 2)) (Some 2) (Some 3)
                = Inr ((fresh ''FIPS'' north_south)\<lparr>grid_points := Some pts\<rparr>, pts)"
     "length pts = nat (2 * 3)" "lat (pts ! 0) = 0 \<and> lon (pts ! 0) = 0"
     "lat (pts ! (nat 2 * nat 3 - 1)) = 1" "lon (pts ! (nat 2 * nat 3 - 1)) = 2"
    using grid_row_major[OF a b, of "fresh ''FIPS'' north_south" 0 1 0 2] by auto
  have "nat (2 * 3) = 6" "nat 2 * nat 3 - 1 = 5" by simp_all
  with p have "\<exists>pts. generate_grid_points (fresh ''FIPS'' north_south) (Some (0, 1)) (Some (0, 2)) (Some 2) (Some 3)
                = Inr ((fresh ''FIPS'' north_south)\<lparr>grid_points := Some pts\<rparr>, pts)
            \<and> length pts = 6 \<and> lat (pts ! 0) = 0 \<and> lon (pts ! 0) = 0
            \<and> lat (pts ! 5) = 1 \<and> lon (pts ! 5) = 2"
    by metis
  with a b c show ?thesis by blast
qed

text \<open>
  Claim C3 as stated, for \<open>L, W \<ge> 1\<close> with both endpoints of each range included, fails
  at a step count of 1: over the ranges \<open>(0, 1)\<close> the grid is the single point \<open>(0, 0)\<close>
  and neither upper endpoint occurs.
\<close>

theorem single_step_omits_upper_endpoint:
  "generate_grid_points (fresh ''FIPS'' north_south) (Some (0, 1)) (Some (0, 1)) (Some 1) (Some 1)
     = Inr ((fresh ''FIPS'' north_south)\<lparr>grid_points := Some [\<lparr>lon = 0, lat = 0\<rparr>]\<rparr>,
            [\<lparr>lon = 0, lat = 0\<rparr>])
   \<and> (1::rat) \<notin> lat ` set [\<lparr>lon = 0, lat = 0\<rparr>]
   \<and> (1::rat) \<notin> lon ` set [\<lparr>lon = 0, lat = 0\<rparr>]"
  by code_simp

text \<open>
  Claim C7 (as amended). \<open>generate_grid_points\<close> checks neither the span of a range nor the
  step counts. For every pair of ranges and non-negative step counts it returns
  \<open>lat_steps * lon_steps\<close> points (none when a step count is 0); only a negative step
  count makes it fail, with the ValueError of \<open>np.linspace\<close>, before any point is generated.
\<close>

theorem no_grid_spec_check:
  "(L < 0 \<or> W < 0 \<longrightarrow>
      generate_grid_points self (Some (a0, a1)) (Some (b0, b1)) (Some L) (Some W)
        = Inl (ValueError ''Number of samples must be non-negative.''))
   \<and> (0 \<le> L \<and> 0 \<le> W \<longrightarrow>
        (\<exists>pts. generate_grid_points self (Some (a0, a1)) (Some (b0, b1)) (Some L) (Some W)
                  = Inr (self\<lparr>grid_points := Some pts\<rparr>, pts)
              \<and> length pts = nat L * nat W))"
proof (intro conjI impI)
  assume "L < 0 \<or> W < 0"
  then show "generate_grid_points self (Some (a0, a1)) (Some (b0, b1)) (Some L) (Some W)
        = Inl (ValueError ''Number of samples must be non-negative.'')"
  proof (cases "L < 0")
    case True
    then show ?thesis by (simp add: generate_grid_points_given linspace_negative)
  next
    case False
    assume "L < 0 \<or> W < 0"
    with False have w: "W < 0" by simp
    from False obtain lats where "linspace a0 a1 L = Inr lats"
      using linspace_values[of L a0 a1] by auto
    with w show ?thesis by (simp add: generate_grid_points_given linspace_negative)
  qed
next
  assume "0 \<le> L \<and> 0 \<le> W"
  then show "\<exists>pts. generate_grid_points self (Some (a0, a1)) (Some (b0, b1)) (Some L) (Some W)
                  = Inr (self\<lparr>grid_points := Some pts\<rparr>, pts)
              \<and> length pts = nat L * nat W"
    using generate_grid_points_formula[of L W self a0 a1 b0 b1] by blast
qed

theorem no_grid_spec_check_witness:
  "((-1::int) < 0 \<or> (2::int) < 0)
   \<and> generate_grid_points (fresh ''FIPS'' north_south) (Some (0, 1)) (Some (0, 1)) (Some (-1)) (Some 2)
       = Inl (ValueError ''Number of samples must be non-negative.'')
   \<and> (0::int) \<le> 2 \<and> (0::int) \<le> 1
   \<and> (\<exists>pts. generate_grid_points (fresh ''FIPS'' north_south) (Some (1, 0)) (Some (0, 0)) (Some 2) (Some 1)
                = Inr ((fresh ''FIPS'' north_south)\<lparr>grid_points := Some pts\<rparr>, pts)
            \<and> length pts = 2)"
  using no_grid_spec_check[of "-1" 2 "fresh ''FIPS'' north_south" 0 1 0 1]
        no_grid_spec_check[of 2 1 "fresh ''FIPS'' north_south" 1 0 0 0]
  by simp

text \<open>
  Claim C7 as stated fails: a latitude range of negative span together with a longitude
  range of span zero yields two points, and a step count of zero yields the empty grid; no
  error is raised.
\<close>

theorem degenerate_grid_spec_accepted:
  "generate_grid_points (fresh ''FIPS'' north_south) (Some (1, 0)) (Some (0, 0)) (Some 2) (Some 1)
     = Inr ((fresh ''FIPS'' north_south)\<lparr>grid_points := Some [\<lparr>lon = 0, lat = 1\<rparr>, \<lparr>lon = 0, lat = 0\<rparr>]\<rparr>,
            [\<lparr>lon = 0, lat = 1\<rparr>, \<lparr>lon = 0, lat = 0\<rparr>])
   \<and> generate_grid_points (fresh ''FIPS'' north_south) (Some (0, 1)) (Some (0, 1)) (Some 0) (Some 2)
     = Inr ((fresh ''FIPS'' north_south)\<lparr>grid_points := Some []\<rparr>, [])"
  by code_simp

section \<open>Construction\<close>

text \<open>
  Claim C5 (as amended). Construction does not look at the identifier values: it succeeds
  exactly when the shapefile can be read and has the configured identifier column, and
  fails with ValueError otherwise.
\<close>

theorem init_checks_column_only:
  "init fs shapefile_path ident =
     (case fs shapefile_path of
        None \<Rightarrow> Inl (ValueError ''Shapefile validation failed.'')
      | Some cs \<Rightarrow>
          if ident \<in> set (gcolumns cs)
          then Inr \<lparr>county_identifier = ident, counties = cs,
                    grid_points = None, grid_with_counties = None\<rparr>
          else Inl (ValueError ''Shapefile validation failed.''))"
  by (simp add: init_def validate_shapefile_def load_county_shapefile_def split: option.splits)

text \<open>
  Claim C5 as stated fails: a shapefile in which two features carry the identifier 1 is
  accepted and an instance is returned.
\<close>

theorem duplicate_identifiers_accepted:
  "init disk ''duplicated_ids.shp'' ''FIPS'' = Inr (fresh ''FIPS'' duplicated_ids)
   \<and> map (\<lambda>c. map_of (attrs c) ''FIPS'') (features duplicated_ids) = [Some 1, Some 1]
   \<and> \<not> distinct (map (\<lambda>c. map_of (attrs c) ''FIPS'') (features duplicated_ids))"
  by code_simp

section \<open>Order of the method calls\<close>

text \<open>
  Claim C10. A freshly constructed instance has neither the attribute \<open>grid_points\<close> nor
  \<open>grid_with_counties\<close>; on it \<open>assign_grid_to_county\<close> and \<open>create_weight_mask\<close> fail.
  After any sequence of calls, \<open>assign_grid_to_county\<close> succeeds only if
  \<open>generate_grid_points\<close> is among the calls made before, and \<open>create_weight_mask\<close>
  succeeds only if \<open>assign_grid_to_county\<close> is among them.
\<close>

theorem hidden_state_call_order:
  assumes "init fs shapefile_path ident = Inr s0"
  shows "grid_points s0 = None \<and> grid_with_counties s0 = None
       \<and> (\<exists>e. assign_grid_to_county to_crs is_within s0 = Inl e)
       \<and> create_weight_mask s0 = Inl (AttributeError ''grid_with_counties'')
       \<and> (\<forall>r. assign_grid_to_county to_crs is_within (run to_crs is_within s0 cs) = Inr r \<longrightarrow>
              (\<exists>a b l k. GenerateGridPoints a b l k \<in> set cs))
       \<and> (\<forall>ds. create_weight_mask (run to_crs is_within s0 cs) = Inr ds \<longrightarrow>
              AssignGridToCounty \<in> set cs)"
proof -
  have fresh: "grid_points s0 = None" "grid_with_counties s0 = None"
    using init_fresh[OF assms] by simp_all
  have a: "\<exists>e. assign_grid_to_county to_crs is_within s0 = Inl e"
    using fresh(1) by (auto simp: assign_grid_to_county_def split: sum.splits)
  have b: "create_weight_mask s0 = Inl (AttributeError ''grid_with_counties'')"
    using fresh(2) by (simp add: create_weight_mask_def)
  have c: "\<forall>r. assign_grid_to_county to_crs is_within (run to_crs is_within s0 cs) = Inr r \<longrightarrow>
              (\<exists>a b l k. GenerateGridPoints a b l k \<in> set cs)"
    using assign_needs_grid_points run_grid_points[of to_crs is_within s0 cs] fresh(1) by blast
  have d: "\<forall>ds. create_weight_mask (run to_crs is_within s0 cs) = Inr ds \<longrightarrow>
              AssignGridToCounty \<in> set cs"
    using create_needs_grid_with_counties run_grid_with_counties[of to_crs is_within s0 cs] fresh(2)
    by blast
  from fresh a b c d show ?thesis by blast
qed

theorem hidden_state_call_order_witness:
  "init disk ''north_south.shp'' ''FIPS'' = Inr (fresh ''FIPS'' north_south)
   \<and> assign_grid_to_county keep_crs box_within (fresh ''FIPS'' north_south)
       = Inl (AttributeError ''grid_points'')
   \<and> create_weight_mask (fresh ''FIPS'' north_south) = Inl (AttributeError ''grid_with_counties'')
   \<and> assign_grid_to_county keep_crs box_within ns_instance
       = Inr (ns_instance, ns_table)
   \<and> create_weight_mask ns_instance = Inr ns_mask
   \<and> (\<exists>a b l k. GenerateGridPoints a b l k \<in> set
         [GenerateGridPoints (Some (0, 1)) (Some (0, 1)) (Some 2) (Some 2), AssignGridToCounty])
   \<and> AssignGridToCounty \<in> set
         [GenerateGridPoints (Some (0, 1)) (Some (0, 1)) (Some 2) (Some 2), AssignGridToCounty]"
proof -
  have a: "init disk ''north_south.shp'' ''FIPS'' = Inr (fresh ''FIPS'' north_south)" by code_simp
  have b: "assign_grid_to_county keep_crs box_within (fresh ''FIPS'' north_south)
       = Inl (AttributeError ''grid_points'')" by code_simp
  have c: "assign_grid_to_county keep_crs box_within ns_instance = Inr (ns_instance, ns_table)"
    by code_simp
  have d: "create_weight_mask ns_instance = Inr ns_mask" by code_simp
  note h = hidden_state_call_order[OF a, of keep_crs box_within
      "[GenerateGridPoints (Some (0, 1)) (Some (0, 1)) (Some 2) (Some 2), AssignGridToCounty]"]
  from h c d have "\<exists>a b l k. GenerateGridPoints a b l k \<in> set
         [GenerateGridPoints (Some (0, 1)) (Some (0, 1)) (Some 2) (Some 2), AssignGridToCounty]"
    unfolding ns_instance_def by blast
  moreover from h d have "AssignGridToCounty \<in> set
         [GenerateGridPoints (Some (0, 1)) (Some (0, 1)) (Some 2) (Some 2), AssignGridToCounty]"
    unfolding ns_instance_def by blast
  moreover from h have "create_weight_mask (fresh ''FIPS'' north_south) = Inl (AttributeError ''grid_with_counties'')"
    by blast
  ultimately show ?thesis using a b c d by blast
qed

end
